theory Spec2Isabelle
  imports
    Main
    "HOL-Library.Sublist"
    "HOL-Library.Multiset"
    "HOL-Library.Char_ord"
    "HOL-Library.List_Lexorder"
    "HOL-Library.Monad_Syntax"
begin

section \<open>Go values used by the resource packages\<close>

text \<open>
  A Go \<^verbatim>\<open>error\<close> value. The provider code tells errors apart with \<^verbatim>\<open>errors.As\<close>, which
  follows the chain built by \<^verbatim>\<open>fmt.Errorf\<close> with the \<^verbatim>\<open>%w\<close> verb only; an error formatted
  with \<^verbatim>\<open>%v\<close>, \<^verbatim>\<open>%+v\<close> or \<^verbatim>\<open>%s\<close> carries the text of the original and nothing else.
  A nil error is \<open>None\<close> of \<open>go_error option\<close>.
\<close>

datatype go_error =
    AwsError string string
  | NotFoundError string
  | OtherError string
  | Errorf_w string go_error
  | Errorf_v string go_error

text \<open>\<^verbatim>\<open>errors.As(err, &awsErr)\<close> for \<^verbatim>\<open>awserr.Error\<close>: the code and message found.\<close>

fun as_awserr :: "go_error \<Rightarrow> (string \<times> string) option" where
  "as_awserr (AwsError c m) = Some (c, m)"
| "as_awserr (Errorf_w p e) = as_awserr e"
| "as_awserr (NotFoundError m) = None"
| "as_awserr (OtherError m) = None"
| "as_awserr (Errorf_v p e) = None"

text \<open>\<^verbatim>\<open>errors.As(err, &e)\<close> for \<^verbatim>\<open>*resource.NotFoundError\<close>.\<close>

fun as_NotFoundError :: "go_error \<Rightarrow> bool" where
  "as_NotFoundError (NotFoundError m) = True"
| "as_NotFoundError (Errorf_w p e) = as_NotFoundError e"
| "as_NotFoundError (AwsError c m) = False"
| "as_NotFoundError (OtherError m) = False"
| "as_NotFoundError (Errorf_v p e) = False"


text \<open>\<^verbatim>\<open>tfawserr.ErrMessageContains\<close>; \<^verbatim>\<open>strings.Contains\<close> is \<^const>\<open>sublist\<close>.\<close>

definition ErrMessageContains :: "go_error option \<Rightarrow> string \<Rightarrow> string \<Rightarrow> bool" where
  "ErrMessageContains err code message =
     (case err of
        None \<Rightarrow> False
      | Some e \<Rightarrow>
          (case as_awserr e of
             None \<Rightarrow> False
           | Some (c, m) \<Rightarrow> c = code \<and> sublist message m))"

text \<open>\<^verbatim>\<open>tfawserr.ErrCodeEquals\<close>.\<close>

definition ErrCodeEquals :: "go_error option \<Rightarrow> string \<Rightarrow> bool" where
  "ErrCodeEquals err code =
     (case err of
        None \<Rightarrow> False
      | Some e \<Rightarrow> (case as_awserr e of None \<Rightarrow> False | Some (c, m) \<Rightarrow> c = code))"

text \<open>\<^verbatim>\<open>tfresource.NotFound\<close>.\<close>

definition NotFound :: "go_error option \<Rightarrow> bool" where
  "NotFound err = (case err of None \<Rightarrow> False | Some e \<Rightarrow> as_NotFoundError e)"

text \<open>\<^verbatim>\<open>aws.StringValue\<close>: a nil \<^verbatim>\<open>*string\<close> reads as the empty string.\<close>

definition StringValue :: "string option \<Rightarrow> string" where
  "StringValue v = (case v of Some s \<Rightarrow> s | None \<Rightarrow> [])"

text \<open>
  A Go slice is \<open>'a list option\<close>: \<open>None\<close> is the nil slice, which has length 0 and
  ranges over nothing, yet differs from an empty slice under \<^verbatim>\<open>== nil\<close>.
\<close>

type_synonym 'a slice = "'a list option"

definition slice_len :: "'a slice \<Rightarrow> nat" where
  "slice_len s = (case s of None \<Rightarrow> 0 | Some xs \<Rightarrow> length xs)"

definition slice_elems :: "'a slice \<Rightarrow> 'a list" where
  "slice_elems s = (case s of None \<Rightarrow> [] | Some xs \<Rightarrow> xs)"

text \<open>
  What a \<^verbatim>\<open>resource.StateRefreshFunc\<close> returns: the snapshot (an \<^verbatim>\<open>interface{}\<close>, nil is
  \<open>None\<close>), the state label and the error. A refresh function that can dereference a nil
  pointer returns this under \<open>option\<close>, where \<open>None\<close> is the panic.
\<close>

type_synonym 's refresh_result = "'s option \<times> string \<times> go_error option"

text \<open>
  \<^verbatim>\<open>time.Duration\<close> counts nanoseconds in an int64; the constants below are far from its
  bounds.
\<close>

type_synonym Duration = int

definition Second :: Duration where
  "Second = 1000000000"

definition Minute :: Duration where
  "Minute = 60 * Second"

text \<open>
  The fields of \<^verbatim>\<open>resource.StateChangeConf\<close> that the composite literals of the code set.
  The struct has no field for failure states.
\<close>

record 's StateChangeConf =
  Pending :: "string list"
  Target :: "string list"
  Refresh :: "unit \<Rightarrow> 's refresh_result option"
  Timeout :: Duration
  Delay :: Duration
  MinTimeout :: Duration

text \<open>
  The failure states a configuration declares: with no field for them in the struct, none.
\<close>

definition declared_failure :: "'s StateChangeConf \<Rightarrow> string list" where
  "declared_failure conf = []"

section \<open>Package rds: cluster endpoint\<close>

definition AWSRDSClusterEndpointCreateTimeout :: Duration where
  "AWSRDSClusterEndpointCreateTimeout = 30 * Minute"

definition AWSRDSClusterEndpointRetryDelay :: Duration where
  "AWSRDSClusterEndpointRetryDelay = 5 * Second"

definition AWSRDSClusterEndpointRetryMinTimeout :: Duration where
  "AWSRDSClusterEndpointRetryMinTimeout = 3 * Second"

text \<open>\<^verbatim>\<open>rds.ErrCodeDBClusterNotFoundFault\<close> of the AWS SDK.\<close>

definition ErrCodeDBClusterNotFoundFault :: string where
  "ErrCodeDBClusterNotFoundFault = ''DBClusterNotFoundFault''"

record DBClusterEndpoint =
  DBClusterEndpointIdentifier :: "string option"
  DBClusterIdentifier :: "string option"
  Status :: "string option"

record DescribeDBClusterEndpointsOutput =
  DBClusterEndpoints :: "DBClusterEndpoint option slice"
  Marker :: "string option"

text \<open>The two kinds of snapshot the refresh function hands back.\<close>

datatype rds_snapshot =
    SnapOutput DescribeDBClusterEndpointsOutput
  | SnapEndpoint DBClusterEndpoint

text \<open>
  \<^verbatim>\<open>conn.DescribeDBClusterEndpoints\<close> for an endpoint identifier: the response pointer and
  the error.
\<close>

type_synonym rds_conn =
  "string \<Rightarrow> DescribeDBClusterEndpointsOutput option \<times> go_error option"

definition emptyResp :: rds_snapshot where
  "emptyResp = SnapOutput \<lparr>DBClusterEndpoints = None, Marker = None\<rparr>"

text \<open>
  One call of the closure returned by \<^verbatim>\<open>DBClusterEndpointStateRefreshFunc(conn, id)\<close>.
  The last return reads \<^verbatim>\<open>*resp.DBClusterEndpoints[0].Status\<close>, which panics on a nil
  first element and on a nil status.
\<close>

definition DBClusterEndpointStateRefreshFunc ::
    "rds_conn \<Rightarrow> string \<Rightarrow> rds_snapshot refresh_result option" where
  "DBClusterEndpointStateRefreshFunc conn ident =
     (case conn ident of (resp, err) \<Rightarrow>
        (case err of
           Some e \<Rightarrow>
             (if ErrMessageContains err ErrCodeDBClusterNotFoundFault [] then
                Some (Some emptyResp, ''destroyed'', None)
              else if (case resp of None \<Rightarrow> False
                       | Some r \<Rightarrow> slice_len (DBClusterEndpoints r) = 0) then
                Some (Some emptyResp, ''destroyed'', None)
              else
                Some (Some emptyResp, [], Some (Errorf_v ''Error on refresh: '' e)))
         | None \<Rightarrow>
             (case resp of
                None \<Rightarrow> Some (Some emptyResp, ''destroyed'', None)
              | Some r \<Rightarrow>
                  (case DBClusterEndpoints r of
                     None \<Rightarrow> Some (Some emptyResp, ''destroyed'', None)
                   | Some [] \<Rightarrow> Some (Some emptyResp, ''destroyed'', None)
                   | Some (first # rest) \<Rightarrow>
                       (case first of
                          None \<Rightarrow> None
                        | Some ep \<Rightarrow>
                            (case Status ep of
                               None \<Rightarrow> None
                             | Some st \<Rightarrow> Some (Some (SnapEndpoint ep), st, None)))))))"

text \<open>
  The \<^verbatim>\<open>StateChangeConf\<close> literal of \<^verbatim>\<open>resourceAwsRDSClusterEndpointWaitForDestroy\<close>, which
  the function then hands to \<^verbatim>\<open>WaitForState\<close> of the plugin SDK.
\<close>

definition resourceAwsRDSClusterEndpointWaitForDestroy_stateConf ::
    "Duration \<Rightarrow> string \<Rightarrow> rds_conn \<Rightarrow> rds_snapshot StateChangeConf" where
  "resourceAwsRDSClusterEndpointWaitForDestroy_stateConf timeout ident conn =
     \<lparr>Pending = [''available'', ''deleting''],
      Target = [''destroyed''],
      Refresh = (\<lambda>_. DBClusterEndpointStateRefreshFunc conn ident),
      Timeout = timeout,
      Delay = AWSRDSClusterEndpointRetryDelay,
      MinTimeout = AWSRDSClusterEndpointRetryMinTimeout\<rparr>"

text \<open>The literal of \<^verbatim>\<open>resourceAwsRDSClusterEndpointWaitForAvailable\<close>.\<close>

definition resourceAwsRDSClusterEndpointWaitForAvailable_stateConf ::
    "Duration \<Rightarrow> string \<Rightarrow> rds_conn \<Rightarrow> rds_snapshot StateChangeConf" where
  "resourceAwsRDSClusterEndpointWaitForAvailable_stateConf timeout ident conn =
     \<lparr>Pending = [''creating''],
      Target = [''available''],
      Refresh = (\<lambda>_. DBClusterEndpointStateRefreshFunc conn ident),
      Timeout = timeout,
      Delay = AWSRDSClusterEndpointRetryDelay,
      MinTimeout = AWSRDSClusterEndpointRetryMinTimeout\<rparr>"

text \<open>
  The wait specifications at the two call sites: \<^verbatim>\<open>resourceAwsRDSClusterEndpointCreate\<close>
  passes the constant create timeout, \<^verbatim>\<open>resourceAwsRDSClusterEndpointDelete\<close> passes
  \<^verbatim>\<open>d.Timeout(schema.TimeoutDelete)\<close>, a value the plugin SDK computes and which is a
  parameter here.
\<close>

definition resourceAwsRDSClusterEndpointCreate_stateConf ::
    "string \<Rightarrow> rds_conn \<Rightarrow> rds_snapshot StateChangeConf" where
  "resourceAwsRDSClusterEndpointCreate_stateConf ident conn =
     resourceAwsRDSClusterEndpointWaitForAvailable_stateConf
       AWSRDSClusterEndpointCreateTimeout ident conn"

definition resourceAwsRDSClusterEndpointDelete_stateConf ::
    "Duration \<Rightarrow> string \<Rightarrow> rds_conn \<Rightarrow> rds_snapshot StateChangeConf" where
  "resourceAwsRDSClusterEndpointDelete_stateConf d_Timeout_delete ident conn =
     resourceAwsRDSClusterEndpointWaitForDestroy_stateConf d_Timeout_delete ident conn"

text \<open>
  \<^verbatim>\<open>d.Timeout(key)\<close> of the plugin SDK, on the \<^verbatim>\<open>timeouts\<close> of the resource data (a
  \<^verbatim>\<open>*ResourceTimeout\<close>): the duration stored for the key, else the stored default, else
  the system default of 20 minutes. The keys are the lower-case constants of the SDK.
\<close>

record ResourceTimeout =
  rt_Create :: "Duration option"
  rt_Read :: "Duration option"
  rt_Update :: "Duration option"
  rt_Delete :: "Duration option"
  rt_Default :: "Duration option"

definition TimeoutCreate :: string where
  "TimeoutCreate = ''create''"

definition TimeoutRead :: string where
  "TimeoutRead = ''read''"

definition TimeoutUpdate :: string where
  "TimeoutUpdate = ''update''"

definition TimeoutDelete :: string where
  "TimeoutDelete = ''delete''"

definition ResourceData_Timeout :: "ResourceTimeout option \<Rightarrow> string \<Rightarrow> Duration" where
  "ResourceData_Timeout timeouts key =
     (let defaultTimeout = 20 * Minute in
      case timeouts of
        None \<Rightarrow> defaultTimeout
      | Some ts \<Rightarrow>
          (case (if key = TimeoutCreate then rt_Create ts
                 else if key = TimeoutRead then rt_Read ts
                 else if key = TimeoutUpdate then rt_Update ts
                 else if key = TimeoutDelete then rt_Delete ts
                 else None) of
             Some timeout \<Rightarrow> timeout
           | None \<Rightarrow>
               (case rt_Default ts of
                  Some timeout \<Rightarrow> timeout
                | None \<Rightarrow> defaultTimeout)))"

text \<open>
  The \<^verbatim>\<open>schema.Resource\<close> literal of \<^verbatim>\<open>ResourceClusterEndpoint\<close> sets no \<^verbatim>\<open>Timeouts\<close>, so
  no timeout can be configured for the resource: the resource data of its handlers has
  either no \<^verbatim>\<open>timeouts\<close> or one with every field nil.
\<close>

definition undeclared_timeouts :: ResourceTimeout where
  "undeclared_timeouts =
     \<lparr>rt_Create = None, rt_Read = None, rt_Update = None, rt_Delete = None,
      rt_Default = None\<rparr>"

text \<open>
  The wait specification \<^verbatim>\<open>resourceAwsRDSClusterEndpointDelete\<close> builds from the
  \<^verbatim>\<open>timeouts\<close> of its resource data.
\<close>

definition resourceAwsRDSClusterEndpointDelete_wait ::
    "ResourceTimeout option \<Rightarrow> string \<Rightarrow> rds_conn \<Rightarrow> rds_snapshot StateChangeConf" where
  "resourceAwsRDSClusterEndpointDelete_wait timeouts ident conn =
     resourceAwsRDSClusterEndpointDelete_stateConf
       (ResourceData_Timeout timeouts TimeoutDelete) ident conn"

section \<open>Package efs: status functions\<close>

record AccessPointDescription =
  AccessPointId :: "string option"
  AccessPoint_LifeCycleState :: "string option"

record DescribeAccessPointsOutput =
  AccessPoints :: "AccessPointDescription option slice"
  AccessPoints_NextToken :: "string option"

record BackupPolicy =
  BackupPolicy_Status :: "string option"

record FileSystemDescription =
  FileSystemId :: "string option"
  FileSystem_LifeCycleState :: "string option"

record DescribeFileSystemsOutput =
  FileSystems :: "FileSystemDescription option slice"
  FileSystems_NextMarker :: "string option"

datatype efs_snapshot =
    SnapAccessPoint AccessPointDescription
  | SnapBackupPolicy BackupPolicy
  | SnapFileSystem FileSystemDescription

text \<open>
  One call of the closure of \<^verbatim>\<open>statusAccessPointLifeCycleState\<close>; the first argument is
  \<^verbatim>\<open>conn.DescribeAccessPoints\<close> as a function of the access point id.
\<close>

definition statusAccessPointLifeCycleState ::
    "(string \<Rightarrow> DescribeAccessPointsOutput option \<times> go_error option) \<Rightarrow> string
      \<Rightarrow> efs_snapshot refresh_result" where
  "statusAccessPointLifeCycleState conn accessPointId =
     (case conn accessPointId of (output, err) \<Rightarrow>
        (case err of
           Some e \<Rightarrow> (None, [], Some e)
         | None \<Rightarrow>
             (case output of
                None \<Rightarrow> (None, [], None)
              | Some out \<Rightarrow>
                  (case slice_elems (AccessPoints out) of
                     [] \<Rightarrow> (None, [], None)
                   | None # rest \<Rightarrow> (None, [], None)
                   | Some mt # rest \<Rightarrow>
                       (Some (SnapAccessPoint mt),
                        StringValue (AccessPoint_LifeCycleState mt), None)))))"

text \<open>
  One call of the closure of \<^verbatim>\<open>statusBackupPolicy\<close>; the first argument is
  \<^verbatim>\<open>findBackupPolicyByID\<close> with its connection, a function of this package that is not
  among the sources. A nil policy that comes with a nil error is dereferenced by
  \<^verbatim>\<open>output.Status\<close>: the panic is \<open>None\<close>.
\<close>

definition statusBackupPolicy ::
    "(string \<Rightarrow> BackupPolicy option \<times> go_error option) \<Rightarrow> string
      \<Rightarrow> efs_snapshot refresh_result option" where
  "statusBackupPolicy findBackupPolicyByID ident =
     (case findBackupPolicyByID ident of (output, err) \<Rightarrow>
        (if NotFound err then Some (None, [], None)
         else
           (case err of
              Some e \<Rightarrow> Some (None, [], Some e)
            | None \<Rightarrow>
                (case output of
                   None \<Rightarrow> None
                 | Some out \<Rightarrow>
                     Some (Some (SnapBackupPolicy out),
                           StringValue (BackupPolicy_Status out), None)))))"

text \<open>One call of the closure of \<^verbatim>\<open>statusFileSystemLifeCycleState\<close>.\<close>

definition statusFileSystemLifeCycleState ::
    "(string \<Rightarrow> DescribeFileSystemsOutput option \<times> go_error option) \<Rightarrow> string
      \<Rightarrow> efs_snapshot refresh_result" where
  "statusFileSystemLifeCycleState conn fileSystemID =
     (case conn fileSystemID of (output, err) \<Rightarrow>
        (case err of
           Some e \<Rightarrow> (None, [], Some e)
         | None \<Rightarrow>
             (case output of
                None \<Rightarrow> (None, [], None)
              | Some out \<Rightarrow>
                  (case slice_elems (FileSystems out) of
                     [] \<Rightarrow> (None, [], None)
                   | None # rest \<Rightarrow> (None, [], None)
                   | Some mt # rest \<Rightarrow>
                       (Some (SnapFileSystem mt),
                        StringValue (FileSystem_LifeCycleState mt), None)))))"

section \<open>The resource data of the plugin SDK\<close>

text \<open>
  \<^verbatim>\<open>*schema.ResourceData\<close> as far as the code below reads and writes it: the resource ID
  and the string attributes. \<^verbatim>\<open>d.Set\<close> stores a value under a key of the schema; the code
  below sets string attributes declared in its schema and drops the error \<^verbatim>\<open>d.Set\<close> returns.
\<close>

record ResourceData =
  rd_Id :: string
  rd_attrs :: "string \<rightharpoonup> string"

definition SetId :: "ResourceData \<Rightarrow> string \<Rightarrow> ResourceData" where
  "SetId d v = d\<lparr>rd_Id := v\<rparr>"


section \<open>Package cloudwatchevents: event bus\<close>

text \<open>\<^verbatim>\<open>events.ErrCodeResourceNotFoundException\<close> of the AWS SDK.\<close>

definition ErrCodeResourceNotFoundException :: string where
  "ErrCodeResourceNotFoundException = ''ResourceNotFoundException''"

text \<open>
  \<^verbatim>\<open>resourceAwsCloudWatchEventBusDelete\<close>; the first argument is \<^verbatim>\<open>conn.DeleteEventBus\<close> as
  a function of the bus name, giving the error of the call.
\<close>

definition resourceAwsCloudWatchEventBusDelete ::
    "(string \<Rightarrow> go_error option) \<Rightarrow> ResourceData \<Rightarrow> go_error option" where
  "resourceAwsCloudWatchEventBusDelete DeleteEventBus d =
     (let err = DeleteEventBus (rd_Id d) in
      if ErrMessageContains err ErrCodeResourceNotFoundException [] then None
      else
        (case err of
           Some e \<Rightarrow>
             Some (Errorf_w
                    (''Error deleting CloudWatch Events event bus ('' @ rd_Id d @ ''): '') e)
         | None \<Rightarrow> None))"

section \<open>Package ec2: route table association\<close>

text \<open>
  Modelled from the spec: the constant \<^verbatim>\<open>errCodeInvalidAssociationIDNotFound\<close> is declared in
  a file of package ec2 that is not among the sources; the route table association delete
  is specified for a \<^verbatim>\<open>DisassociateRouteTable\<close> that fails with
  \<^verbatim>\<open>InvalidAssociationID.NotFound\<close>.
\<close>

definition errCodeInvalidAssociationIDNotFound :: string where
  "errCodeInvalidAssociationIDNotFound = ''InvalidAssociationID.NotFound''"



text \<open>
  \<^verbatim>\<open>ec2RouteTableAssociationDelete\<close>. \<^verbatim>\<open>conn.DisassociateRouteTable\<close> is a function of the
  association ID giving the error of the call; \<^verbatim>\<open>waitRouteTableAssociationDeleted\<close>, a
  function of this package that is not among the sources, is a parameter giving its error.
\<close>

definition ec2RouteTableAssociationDelete ::
    "(string \<Rightarrow> go_error option) \<Rightarrow> (string \<Rightarrow> go_error option) \<Rightarrow> string
      \<Rightarrow> go_error option" where
  "ec2RouteTableAssociationDelete DisassociateRouteTable waitRouteTableAssociationDeleted
       associationID =
     (let err = DisassociateRouteTable associationID in
      if ErrCodeEquals err errCodeInvalidAssociationIDNotFound then None
      else
        (case err of
           Some e \<Rightarrow>
             Some (Errorf_w
                    (''error deleting Route Table Association ('' @ associationID @ ''): '') e)
         | None \<Rightarrow>
             (case waitRouteTableAssociationDeleted associationID of
                Some e \<Rightarrow>
                  Some (Errorf_w
                         (''error waiting for Route Table Association ('' @ associationID
                            @ '') delete: '') e)
              | None \<Rightarrow> None)))"

definition resourceAwsRouteTableAssociationDelete ::
    "(string \<Rightarrow> go_error option) \<Rightarrow> (string \<Rightarrow> go_error option) \<Rightarrow> ResourceData
      \<Rightarrow> go_error option" where
  "resourceAwsRouteTableAssociationDelete DisassociateRouteTable
       waitRouteTableAssociationDeleted d =
     ec2RouteTableAssociationDelete DisassociateRouteTable waitRouteTableAssociationDeleted
       (rd_Id d)"






section \<open>Package lakeformation: permission filter\<close>

text \<open>
  The structs of the AWS SDK, with the fields the filter reads. A pointer is an \<open>option\<close>;
  where the code reads through a nil pointer the result of the function is \<open>None\<close>, the
  panic.
\<close>

record DataLakePrincipal =
  DataLakePrincipalIdentifier :: "string option"

datatype CatalogResource = CatalogResource

record DataLocationResource =
  DataLocation_CatalogId :: "string option"
  ResourceArn :: "string option"

record DatabaseResource =
  Database_CatalogId :: "string option"
  Database_Name :: "string option"

datatype TableWildcard = TableWildcard

record TableResource =
  Table_DatabaseName :: "string option"
  Table_Name :: "string option"
  Table_TableWildcard :: "TableWildcard option"

record ColumnWildcard =
  ExcludedColumnNames :: "string option slice"

record TableWithColumnsResource =
  ColumnNames :: "string option slice"
  TWC_ColumnWildcard :: "ColumnWildcard option"
  TWC_DatabaseName :: "string option"
  TWC_Name :: "string option"

record Resource =
  Catalog :: "CatalogResource option"
  DataLocation :: "DataLocationResource option"
  Database :: "DatabaseResource option"
  Table :: "TableResource option"
  TableWithColumns :: "TableWithColumnsResource option"

record PrincipalResourcePermissions =
  Permissions :: "string option slice"
  PermissionsWithGrantOption :: "string option slice"
  Perm_Principal :: "DataLakePrincipal option"
  Perm_Resource :: "Resource option"

record ListPermissionsInput =
  Input_Principal :: "DataLakePrincipal option"
  Input_Resource :: "Resource option"

text \<open>\<^verbatim>\<open>lakeformation.PermissionSelect\<close> of the AWS SDK.\<close>

definition PermissionSelect :: string where
  "PermissionSelect = ''SELECT''"

text \<open>
  The constants \<^verbatim>\<open>tableTypeTable\<close>, \<^verbatim>\<open>tableTypeTableWithColumns\<close> and \<^verbatim>\<open>tableNameAllTables\<close>
  are declared in a file of the package that is not among the sources: they are
  parameters of the functions that read them.
\<close>

record package_consts =
  tableTypeTable :: string
  tableTypeTableWithColumns :: string
  tableNameAllTables :: string

text \<open>\<^verbatim>\<open>aws.StringValueSlice\<close>: a fresh slice of the values, never nil.\<close>

definition StringValueSlice :: "string option slice \<Rightarrow> string list" where
  "StringValueSlice src = map StringValue (slice_elems src)"

text \<open>
  \<^verbatim>\<open>sort.Strings\<close> orders the two fresh slices bytewise, which is the lexicographic order
  of \<open>char list\<close>; \<^verbatim>\<open>reflect.DeepEqual\<close> of two non-nil string slices is equality.
\<close>

definition stringSlicesEqualIgnoreOrder ::
    "string option slice \<Rightarrow> string option slice \<Rightarrow> bool" where
  "stringSlicesEqualIgnoreOrder s1 s2 =
     (if slice_len s1 \<noteq> slice_len s2 then False
      else
        (let v1 = StringValueSlice s1;
             v2 = StringValueSlice s2
         in sort v1 = sort v2))"

text \<open>
  The shape every loop of the filter has: range over \<^verbatim>\<open>allPermissions\<close>, and append the
  element to \<^verbatim>\<open>cleanPermissions\<close> or continue. The body says which (\<open>Some True\<close> appends),
  or panics. A nil \<^verbatim>\<open>cleanPermissions\<close> is the empty list.
\<close>

fun range_append :: "('a \<Rightarrow> bool option) \<Rightarrow> 'a list \<Rightarrow> 'a list \<Rightarrow> 'a list option" where
  "range_append body cleanPermissions [] = Some cleanPermissions"
| "range_append body cleanPermissions (perm # rest) =
     (case body perm of
        None \<Rightarrow> None
      | Some True \<Rightarrow> range_append body (cleanPermissions @ [perm]) rest
      | Some False \<Rightarrow> range_append body cleanPermissions rest)"

text \<open>\<^verbatim>\<open>len(s) > 0 && aws.StringValue(s[0]) == v\<close>.\<close>

definition first_is :: "string option slice \<Rightarrow> string \<Rightarrow> bool" where
  "first_is s v = (case slice_elems s of [] \<Rightarrow> False | x # rest \<Rightarrow> StringValue x = v)"

definition filterTablePermissions_body ::
    "package_consts \<Rightarrow> string option \<Rightarrow> TableResource option
      \<Rightarrow> PrincipalResourcePermissions option \<Rightarrow> bool option" where
  "filterTablePermissions_body k principal_id table perm =
     do {
       p \<leftarrow> perm;
       pp \<leftarrow> Perm_Principal p;
       if StringValue principal_id \<noteq> StringValue (DataLakePrincipalIdentifier pp) then Some False
       else do {
         res \<leftarrow> Perm_Resource p;
         selected \<leftarrow>
           (case TableWithColumns res of
              None \<Rightarrow> Some False
            | Some twc \<Rightarrow>
                if TWC_ColumnWildcard twc \<noteq> None then
                  do {
                    t \<leftarrow> table;
                    Some ((StringValue (TWC_Name twc) = StringValue (Table_Name t)
                           \<or> (Table_TableWildcard t \<noteq> None
                               \<and> StringValue (TWC_Name twc) = tableNameAllTables k))
                          \<and> (first_is (Permissions p) PermissionSelect
                               \<or> first_is (PermissionsWithGrantOption p) PermissionSelect))
                  }
                else Some False);
         if selected then Some True
         else
           (case Table res of
              None \<Rightarrow> Some False
            | Some pt \<Rightarrow>
                do {
                  t \<leftarrow> table;
                  Some (StringValue (Table_DatabaseName pt) = StringValue (Table_DatabaseName t)
                        \<and> (StringValue (Table_Name pt) = StringValue (Table_Name t)
                             \<or> (Table_TableWildcard pt \<noteq> None
                                 \<and> Table_TableWildcard t \<noteq> None)))
                })
       }
     }"

definition filterTablePermissions ::
    "package_consts \<Rightarrow> string option \<Rightarrow> TableResource option
      \<Rightarrow> PrincipalResourcePermissions option list
      \<Rightarrow> PrincipalResourcePermissions option list option" where
  "filterTablePermissions k principal_id table allPermissions =
     range_append (filterTablePermissions_body k principal_id table) [] allPermissions"

definition filterTableWithColumnsPermissions_body ::
    "string option \<Rightarrow> TableResource option \<Rightarrow> string option slice \<Rightarrow> string option slice
      \<Rightarrow> bool \<Rightarrow> PrincipalResourcePermissions option \<Rightarrow> bool option" where
  "filterTableWithColumnsPermissions_body principal_id twc columnNames excludedColumnNames
       columnWildcard perm =
     do {
       p \<leftarrow> perm;
       pp \<leftarrow> Perm_Principal p;
       if StringValue principal_id \<noteq> StringValue (DataLakePrincipalIdentifier pp) then Some False
       else do {
         res \<leftarrow> Perm_Resource p;
         if (case TableWithColumns res of
               None \<Rightarrow> False
             | Some c \<Rightarrow>
                 ColumnNames c \<noteq> None
                 \<and> stringSlicesEqualIgnoreOrder (ColumnNames c) columnNames)
         then Some True
         else if (case TableWithColumns res of
                    None \<Rightarrow> False
                  | Some c \<Rightarrow>
                      (case TWC_ColumnWildcard c of
                         None \<Rightarrow> False
                       | Some w \<Rightarrow>
                           (columnWildcard \<or> slice_len excludedColumnNames > 0)
                           \<and> ((ExcludedColumnNames w = None
                                 \<and> slice_len excludedColumnNames = 0)
                                \<or> (slice_len excludedColumnNames > 0
                                    \<and> stringSlicesEqualIgnoreOrder (ExcludedColumnNames w)
                                          excludedColumnNames))))
         then Some True
         else
           (case Table res of
              None \<Rightarrow> Some False
            | Some pt \<Rightarrow>
                do {
                  t \<leftarrow> twc;
                  Some (StringValue (Table_Name pt) = StringValue (Table_Name t))
                })
       }
     }"

definition filterTableWithColumnsPermissions ::
    "string option \<Rightarrow> TableResource option \<Rightarrow> string option slice \<Rightarrow> string option slice
      \<Rightarrow> bool \<Rightarrow> PrincipalResourcePermissions option list
      \<Rightarrow> PrincipalResourcePermissions option list option" where
  "filterTableWithColumnsPermissions principal_id twc columnNames excludedColumnNames
       columnWildcard allPermissions =
     range_append
       (filterTableWithColumnsPermissions_body principal_id twc columnNames excludedColumnNames
          columnWildcard)
       [] allPermissions"

text \<open>
  The body shared by the catalog, data location and database filters, which differ in the
  field of the resource they test for nil.
\<close>

definition filterByResource_body ::
    "(Resource \<Rightarrow> bool) \<Rightarrow> string option \<Rightarrow> PrincipalResourcePermissions option
      \<Rightarrow> bool option" where
  "filterByResource_body present principal_id perm =
     do {
       p \<leftarrow> perm;
       pp \<leftarrow> Perm_Principal p;
       if StringValue principal_id \<noteq> StringValue (DataLakePrincipalIdentifier pp) then Some False
       else do {
         res \<leftarrow> Perm_Resource p;
         Some (present res)
       }
     }"

definition filterCatalogPermissions ::
    "string option \<Rightarrow> PrincipalResourcePermissions option list
      \<Rightarrow> PrincipalResourcePermissions option list option" where
  "filterCatalogPermissions principal_id allPermissions =
     range_append (filterByResource_body (\<lambda>res. Catalog res \<noteq> None) principal_id) []
       allPermissions"

definition filterDataLocationPermissions ::
    "string option \<Rightarrow> PrincipalResourcePermissions option list
      \<Rightarrow> PrincipalResourcePermissions option list option" where
  "filterDataLocationPermissions principal_id allPermissions =
     range_append (filterByResource_body (\<lambda>res. DataLocation res \<noteq> None) principal_id) []
       allPermissions"

definition filterDatabasePermissions ::
    "string option \<Rightarrow> PrincipalResourcePermissions option list
      \<Rightarrow> PrincipalResourcePermissions option list option" where
  "filterDatabasePermissions principal_id allPermissions =
     range_append (filterByResource_body (\<lambda>res. Database res \<noteq> None) principal_id) []
       allPermissions"

text \<open>
  \<^verbatim>\<open>filterPermissions\<close>. The principal of the input is read only on the branch taken, after
  the test that selects the branch.
\<close>

definition filterPermissions ::
    "package_consts \<Rightarrow> ListPermissionsInput option \<Rightarrow> string \<Rightarrow> string option slice
      \<Rightarrow> string option slice \<Rightarrow> bool \<Rightarrow> PrincipalResourcePermissions option list
      \<Rightarrow> PrincipalResourcePermissions option list option" where
  "filterPermissions k input tableType columnNames excludedColumnNames columnWildcard
       allPermissions =
     do {
       inp \<leftarrow> input;
       res \<leftarrow> Input_Resource inp;
       if Catalog res \<noteq> None then
         do {
           pr \<leftarrow> Input_Principal inp;
           filterCatalogPermissions (DataLakePrincipalIdentifier pr) allPermissions
         }
       else if DataLocation res \<noteq> None then
         do {
           pr \<leftarrow> Input_Principal inp;
           filterDataLocationPermissions (DataLakePrincipalIdentifier pr) allPermissions
         }
       else if Database res \<noteq> None then
         do {
           pr \<leftarrow> Input_Principal inp;
           filterDatabasePermissions (DataLakePrincipalIdentifier pr) allPermissions
         }
       else if tableType = tableTypeTableWithColumns k then
         do {
           pr \<leftarrow> Input_Principal inp;
           filterTableWithColumnsPermissions (DataLakePrincipalIdentifier pr) (Table res)
             columnNames excludedColumnNames columnWildcard allPermissions
         }
       else if Table res \<noteq> None \<or> tableType = tableTypeTable k then
         do {
           pr \<leftarrow> Input_Principal inp;
           filterTablePermissions k (DataLakePrincipalIdentifier pr) (Table res)
             allPermissions
         }
       else Some []
     }"

text \<open>
  The test at the head of every loop body, \<^verbatim>\<open>aws.StringValue(principal) ==
  aws.StringValue(perm.Principal.DataLakePrincipalIdentifier)\<close>, as a predicate on the
  elements of \<^verbatim>\<open>allPermissions\<close>; a nil element or principal, which the code would
  dereference, has no principal to compare.
\<close>

definition principal_equals ::
    "string option \<Rightarrow> PrincipalResourcePermissions option \<Rightarrow> bool" where
  "principal_equals principal_id perm =
     (case perm of
        None \<Rightarrow> False
      | Some p \<Rightarrow>
          (case Perm_Principal p of
             None \<Rightarrow> False
           | Some pp \<Rightarrow>
               StringValue (DataLakePrincipalIdentifier pp) = StringValue principal_id))"

section \<open>Concrete inputs\<close>

text \<open>Responses of the RDS API: an endpoint that is gone, and a call that times out.\<close>

definition example_conn_not_found :: rds_conn where
  "example_conn_not_found ident =
     (None, Some (AwsError ''DBClusterNotFoundFault'' ''endpoint not found''))"





text \<open>Responses of the EFS API and of the backup policy lookup.\<close>

definition example_access_points ::
    "string \<Rightarrow> DescribeAccessPointsOutput option \<times> go_error option" where
  "example_access_points accessPointId =
     (Some \<lparr>AccessPoints = Some [None], AccessPoints_NextToken = None\<rparr>, None)"

definition example_file_system :: FileSystemDescription where
  "example_file_system =
     \<lparr>FileSystemId = Some ''fs-1'', FileSystem_LifeCycleState = Some ''available''\<rparr>"

definition example_file_systems ::
    "string \<Rightarrow> DescribeFileSystemsOutput option \<times> go_error option" where
  "example_file_systems fileSystemID =
     (Some \<lparr>FileSystems = Some [Some example_file_system], FileSystems_NextMarker = None\<rparr>,
      None)"

definition example_backup_policy ::
    "string \<Rightarrow> BackupPolicy option \<times> go_error option" where
  "example_backup_policy ident =
     (if ident = ''fs-1'' then (Some \<lparr>BackupPolicy_Status = Some ''ENABLED''\<rparr>, None)
      else if ident = ''fs-2'' then (None, Some (NotFoundError ''no backup policy''))
      else (None, Some (OtherError ''access denied'')))"

text \<open>Delete calls that fail because the resource is not there.\<close>

definition example_DeleteEventBus :: "string \<Rightarrow> go_error option" where
  "example_DeleteEventBus name =
     Some (AwsError ''ResourceNotFoundException'' ''Event bus does not exist.'')"

definition example_DisassociateRouteTable :: "string \<Rightarrow> go_error option" where
  "example_DisassociateRouteTable associationID =
     Some (AwsError ''InvalidAssociationID.NotFound'' ''The association ID does not exist'')"

definition example_wait_fails :: "string \<Rightarrow> go_error option" where
  "example_wait_fails associationID = Some (OtherError ''timeout while waiting'')"

definition example_bus :: ResourceData where
  "example_bus = \<lparr>rd_Id = ''orders'', rd_attrs = Map.empty\<rparr>"






text \<open>Permissions of two principals on a table, as the Lake Formation API lists them.\<close>

definition example_consts :: package_consts where
  "example_consts =
     \<lparr>tableTypeTable = ''Table'', tableTypeTableWithColumns = ''TableWithColumns'',
      tableNameAllTables = ''ALL_TABLES''\<rparr>"

definition example_table :: "string \<Rightarrow> Resource" where
  "example_table name =
     \<lparr>Catalog = None, DataLocation = None, Database = None,
      Table = Some \<lparr>Table_DatabaseName = Some ''db'', Table_Name = Some name,
                    Table_TableWildcard = None\<rparr>,
      TableWithColumns = None\<rparr>"

definition example_table_with_columns :: Resource where
  "example_table_with_columns =
     \<lparr>Catalog = None, DataLocation = None, Database = None, Table = None,
      TableWithColumns =
        Some \<lparr>ColumnNames = None,
              TWC_ColumnWildcard = Some \<lparr>ExcludedColumnNames = None\<rparr>,
              TWC_DatabaseName = Some ''db'', TWC_Name = Some ''orders''\<rparr>\<rparr>"

definition example_permission ::
    "string \<Rightarrow> string \<Rightarrow> Resource \<Rightarrow> PrincipalResourcePermissions option" where
  "example_permission who what res =
     Some \<lparr>Permissions = Some [Some what], PermissionsWithGrantOption = None,
           Perm_Principal = Some \<lparr>DataLakePrincipalIdentifier = Some who\<rparr>,
           Perm_Resource = Some res\<rparr>"

definition example_allPermissions :: "PrincipalResourcePermissions option list" where
  "example_allPermissions =
     [example_permission ''alice'' ''ALTER'' (example_table ''orders''),
      example_permission ''bob'' ''ALTER'' (example_table ''orders''),
      example_permission ''alice'' ''ALTER'' (example_table ''invoices''),
      example_permission ''alice'' ''SELECT'' example_table_with_columns]"

definition example_input :: "ListPermissionsInput option" where
  "example_input =
     Some \<lparr>Input_Principal = Some \<lparr>DataLakePrincipalIdentifier = Some ''alice''\<rparr>,
           Input_Resource = Some (example_table ''orders'')\<rparr>"

section \<open>RDS cluster endpoint: the wait specifications and their refresh function\<close>

lemmas stateConf_defs =
  resourceAwsRDSClusterEndpointWaitForDestroy_stateConf_def
  resourceAwsRDSClusterEndpointWaitForAvailable_stateConf_def
  resourceAwsRDSClusterEndpointCreate_stateConf_def
  resourceAwsRDSClusterEndpointDelete_stateConf_def

lemmas duration_defs =
  AWSRDSClusterEndpointCreateTimeout_def AWSRDSClusterEndpointRetryDelay_def
  AWSRDSClusterEndpointRetryMinTimeout_def Minute_def Second_def

text \<open>
  C1. The delete wait has the pending states "available" and "deleting" and the target
  state "destroyed". Whenever the endpoint is absent from the answer of the Describe call
  (the call fails with code DBClusterNotFoundFault, or it hands back a response whose
  endpoint list is empty or nil, with or without an error), the refresh function returns
  the label "destroyed" and a nil error, so absence counts as the target.
\<close>

theorem refresh_absent_is_destroyed:
  assumes "conn ident = (resp, err)"
    and "(\<exists>e m. err = Some e \<and> as_awserr e = Some (''DBClusterNotFoundFault'', m))
         \<or> (\<exists>r. resp = Some r \<and> slice_elems (DBClusterEndpoints r) = [])"
  shows "Pending (resourceAwsRDSClusterEndpointWaitForDestroy_stateConf timeout ident conn)
           = [''available'', ''deleting'']
       \<and> Target (resourceAwsRDSClusterEndpointWaitForDestroy_stateConf timeout ident conn)
           = [''destroyed'']
       \<and> Refresh (resourceAwsRDSClusterEndpointWaitForDestroy_stateConf timeout ident conn) ()
           = Some (Some emptyResp, ''destroyed'', None)
       \<and> DBClusterEndpointStateRefreshFunc conn ident
           = Some (Some emptyResp, ''destroyed'', None)"
  using assms
  by (auto simp: stateConf_defs DBClusterEndpointStateRefreshFunc_def ErrMessageContains_def
      ErrCodeDBClusterNotFoundFault_def slice_len_def slice_elems_def
      split: option.splits list.splits)

theorem refresh_absent_is_destroyed_witness:
  "example_conn_not_found ''reader''
     = (None, Some (AwsError ''DBClusterNotFoundFault'' ''endpoint not found''))
   \<and> as_awserr (AwsError ''DBClusterNotFoundFault'' ''endpoint not found'')
       = Some (''DBClusterNotFoundFault'', ''endpoint not found'')
   \<and> Refresh (resourceAwsRDSClusterEndpointWaitForDestroy_stateConf (20 * Minute) ''reader''
         example_conn_not_found) ()
       = Some (Some emptyResp, ''destroyed'', None)
   \<and> ''destroyed'' \<in> set (Target (resourceAwsRDSClusterEndpointWaitForDestroy_stateConf
         (20 * Minute) ''reader'' example_conn_not_found))"
  using refresh_absent_is_destroyed [of example_conn_not_found "''reader''" None
      "Some (AwsError ''DBClusterNotFoundFault'' ''endpoint not found'')" "20 * Minute"]
  by (simp add: example_conn_not_found_def)




text \<open>
  C4. In both wait configurations the pending, target and failure labels are pairwise
  disjoint: the create wait has pending "creating" and target "available", the delete wait
  has pending "available" and "deleting" and target "destroyed", and neither declares a
  failure state.
\<close>

theorem stateConf_labels_disjoint:
  "Pending (resourceAwsRDSClusterEndpointCreate_stateConf ident conn) = [''creating'']
   \<and> Target (resourceAwsRDSClusterEndpointCreate_stateConf ident conn) = [''available'']
   \<and> declared_failure (resourceAwsRDSClusterEndpointCreate_stateConf ident conn) = []
   \<and> Pending (resourceAwsRDSClusterEndpointDelete_stateConf t ident conn)
       = [''available'', ''deleting'']
   \<and> Target (resourceAwsRDSClusterEndpointDelete_stateConf t ident conn) = [''destroyed'']
   \<and> declared_failure (resourceAwsRDSClusterEndpointDelete_stateConf t ident conn) = []
   \<and> set (Pending (resourceAwsRDSClusterEndpointCreate_stateConf ident conn))
       \<inter> set (Target (resourceAwsRDSClusterEndpointCreate_stateConf ident conn)) = {}
   \<and> set (Pending (resourceAwsRDSClusterEndpointCreate_stateConf ident conn))
       \<inter> set (declared_failure (resourceAwsRDSClusterEndpointCreate_stateConf ident conn))
       = {}
   \<and> set (Target (resourceAwsRDSClusterEndpointCreate_stateConf ident conn))
       \<inter> set (declared_failure (resourceAwsRDSClusterEndpointCreate_stateConf ident conn))
       = {}
   \<and> set (Pending (resourceAwsRDSClusterEndpointDelete_stateConf t ident conn))
       \<inter> set (Target (resourceAwsRDSClusterEndpointDelete_stateConf t ident conn)) = {}
   \<and> set (Pending (resourceAwsRDSClusterEndpointDelete_stateConf t ident conn))
       \<inter> set (declared_failure (resourceAwsRDSClusterEndpointDelete_stateConf t ident conn))
       = {}
   \<and> set (Target (resourceAwsRDSClusterEndpointDelete_stateConf t ident conn))
       \<inter> set (declared_failure (resourceAwsRDSClusterEndpointDelete_stateConf t ident conn))
       = {}"
  by (simp add: stateConf_defs declared_failure_def)

text \<open>
  C6. Both wait specifications have a non-empty target set, a strictly positive timeout,
  a delay of 5 seconds and a minimum timeout of 3 seconds, so that delay >= minimum
  timeout > 0. The timeout of the create wait is 30 minutes. The timeout of the delete
  wait is what \<^verbatim>\<open>d.Timeout(schema.TimeoutDelete)\<close> gives for a resource that declares no
  timeouts, which is 20 minutes.
\<close>

theorem stateConf_timing:
  "Target (resourceAwsRDSClusterEndpointCreate_stateConf ident conn) \<noteq> []
   \<and> Target (resourceAwsRDSClusterEndpointDelete_wait None ident conn) \<noteq> []
   \<and> Target (resourceAwsRDSClusterEndpointDelete_wait (Some undeclared_timeouts) ident conn)
       \<noteq> []
   \<and> Timeout (resourceAwsRDSClusterEndpointCreate_stateConf ident conn) = 30 * Minute
   \<and> Timeout (resourceAwsRDSClusterEndpointCreate_stateConf ident conn) = 1800000000000
   \<and> 0 < Timeout (resourceAwsRDSClusterEndpointCreate_stateConf ident conn)
   \<and> Timeout (resourceAwsRDSClusterEndpointDelete_wait None ident conn) = 20 * Minute
   \<and> Timeout (resourceAwsRDSClusterEndpointDelete_wait (Some undeclared_timeouts) ident conn)
       = 20 * Minute
   \<and> 0 < Timeout (resourceAwsRDSClusterEndpointDelete_wait None ident conn)
   \<and> 0 < Timeout (resourceAwsRDSClusterEndpointDelete_wait (Some undeclared_timeouts) ident
             conn)
   \<and> Delay (resourceAwsRDSClusterEndpointCreate_stateConf ident conn) = 5 * Second
   \<and> MinTimeout (resourceAwsRDSClusterEndpointCreate_stateConf ident conn) = 3 * Second
   \<and> Delay (resourceAwsRDSClusterEndpointDelete_wait timeouts ident conn) = 5 * Second
   \<and> MinTimeout (resourceAwsRDSClusterEndpointDelete_wait timeouts ident conn) = 3 * Second
   \<and> MinTimeout (resourceAwsRDSClusterEndpointCreate_stateConf ident conn)
       \<le> Delay (resourceAwsRDSClusterEndpointCreate_stateConf ident conn)
   \<and> 0 < MinTimeout (resourceAwsRDSClusterEndpointCreate_stateConf ident conn)
   \<and> MinTimeout (resourceAwsRDSClusterEndpointDelete_wait timeouts ident conn)
       \<le> Delay (resourceAwsRDSClusterEndpointDelete_wait timeouts ident conn)
   \<and> 0 < MinTimeout (resourceAwsRDSClusterEndpointDelete_wait timeouts ident conn)"
  by (simp add: stateConf_defs duration_defs resourceAwsRDSClusterEndpointDelete_wait_def
      ResourceData_Timeout_def undeclared_timeouts_def TimeoutCreate_def TimeoutRead_def
      TimeoutUpdate_def TimeoutDelete_def)

section \<open>EFS status functions\<close>

text \<open>
  C3. Each status function returns the not-found sentinel (nil snapshot, empty label, nil
  error) exactly when the entity is absent: for access points and file systems, when the
  call succeeded and its output is nil, has an empty (or nil) list, or has a nil first
  element; for the backup policy, when the error of the lookup satisfies \<^verbatim>\<open>NotFound\<close>.
  Otherwise an error of the call is handed on with a nil snapshot and an empty label, and
  a fetched object is returned with its state string and a nil error.
\<close>

theorem efs_status_not_found:
  assumes "connAP a = (outA, errA)"
    and "connFS f = (outF, errF)"
    and "findBP b = (outB, errB)"
  shows "((statusAccessPointLifeCycleState connAP a = (None, [], None))
            \<longleftrightarrow> (errA = None \<and> (outA = None
                  \<or> (\<exists>out. outA = Some out \<and> (slice_elems (AccessPoints out) = []
                         \<or> (\<exists>rest. slice_elems (AccessPoints out) = None # rest))))))
       \<and> (\<forall>e. errA = Some e
            \<longrightarrow> statusAccessPointLifeCycleState connAP a = (None, [], Some e))
       \<and> (\<forall>out mt rest. errA = None \<and> outA = Some out
              \<and> slice_elems (AccessPoints out) = Some mt # rest
            \<longrightarrow> statusAccessPointLifeCycleState connAP a
                  = (Some (SnapAccessPoint mt), StringValue (AccessPoint_LifeCycleState mt),
                     None))
       \<and> ((statusFileSystemLifeCycleState connFS f = (None, [], None))
            \<longleftrightarrow> (errF = None \<and> (outF = None
                  \<or> (\<exists>out. outF = Some out \<and> (slice_elems (FileSystems out) = []
                         \<or> (\<exists>rest. slice_elems (FileSystems out) = None # rest))))))
       \<and> (\<forall>e. errF = Some e
            \<longrightarrow> statusFileSystemLifeCycleState connFS f = (None, [], Some e))
       \<and> (\<forall>out mt rest. errF = None \<and> outF = Some out
              \<and> slice_elems (FileSystems out) = Some mt # rest
            \<longrightarrow> statusFileSystemLifeCycleState connFS f
                  = (Some (SnapFileSystem mt), StringValue (FileSystem_LifeCycleState mt),
                     None))
       \<and> ((statusBackupPolicy findBP b = Some (None, [], None)) \<longleftrightarrow> NotFound errB)
       \<and> (\<forall>e. errB = Some e \<and> \<not> NotFound errB
            \<longrightarrow> statusBackupPolicy findBP b = Some (None, [], Some e))
       \<and> (\<forall>out. errB = None \<and> outB = Some out
            \<longrightarrow> statusBackupPolicy findBP b
                  = Some (Some (SnapBackupPolicy out), StringValue (BackupPolicy_Status out),
                          None))"
proof -
  have ap: "(statusAccessPointLifeCycleState connAP a = (None, [], None))
            \<longleftrightarrow> (errA = None \<and> (outA = None
                  \<or> (\<exists>out. outA = Some out \<and> (slice_elems (AccessPoints out) = []
                         \<or> (\<exists>rest. slice_elems (AccessPoints out) = None # rest)))))"
    using assms(1)
    by (auto simp: statusAccessPointLifeCycleState_def split: option.splits list.splits)
  have ap_err: "\<forall>e. errA = Some e
                 \<longrightarrow> statusAccessPointLifeCycleState connAP a = (None, [], Some e)"
    using assms(1) by (simp add: statusAccessPointLifeCycleState_def)
  have ap_obj: "\<forall>out mt rest. errA = None \<and> outA = Some out
              \<and> slice_elems (AccessPoints out) = Some mt # rest
            \<longrightarrow> statusAccessPointLifeCycleState connAP a
                  = (Some (SnapAccessPoint mt), StringValue (AccessPoint_LifeCycleState mt),
                     None)"
    using assms(1) by (simp add: statusAccessPointLifeCycleState_def)
  have fs: "(statusFileSystemLifeCycleState connFS f = (None, [], None))
            \<longleftrightarrow> (errF = None \<and> (outF = None
                  \<or> (\<exists>out. outF = Some out \<and> (slice_elems (FileSystems out) = []
                         \<or> (\<exists>rest. slice_elems (FileSystems out) = None # rest)))))"
    using assms(2)
    by (auto simp: statusFileSystemLifeCycleState_def split: option.splits list.splits)
  have fs_err: "\<forall>e. errF = Some e
                 \<longrightarrow> statusFileSystemLifeCycleState connFS f = (None, [], Some e)"
    using assms(2) by (simp add: statusFileSystemLifeCycleState_def)
  have fs_obj: "\<forall>out mt rest. errF = None \<and> outF = Some out
              \<and> slice_elems (FileSystems out) = Some mt # rest
            \<longrightarrow> statusFileSystemLifeCycleState connFS f
                  = (Some (SnapFileSystem mt), StringValue (FileSystem_LifeCycleState mt),
                     None)"
    using assms(2) by (simp add: statusFileSystemLifeCycleState_def)
  have bp: "(statusBackupPolicy findBP b = Some (None, [], None)) \<longleftrightarrow> NotFound errB"
    using assms(3) by (auto simp: statusBackupPolicy_def NotFound_def split: option.splits)
  have bp_err: "\<forall>e. errB = Some e \<and> \<not> NotFound errB
            \<longrightarrow> statusBackupPolicy findBP b = Some (None, [], Some e)"
    using assms(3) by (simp add: statusBackupPolicy_def)
  have bp_obj: "\<forall>out. errB = None \<and> outB = Some out
            \<longrightarrow> statusBackupPolicy findBP b
                  = Some (Some (SnapBackupPolicy out), StringValue (BackupPolicy_Status out),
                          None)"
    using assms(3) by (simp add: statusBackupPolicy_def NotFound_def)
  from ap ap_err ap_obj fs fs_err fs_obj bp bp_err bp_obj show ?thesis by blast
qed

theorem efs_status_not_found_witness:
  "statusAccessPointLifeCycleState example_access_points ''fsap-1'' = (None, [], None)
   \<and> statusFileSystemLifeCycleState example_file_systems ''fs-1''
       = (Some (SnapFileSystem example_file_system), ''available'', None)
   \<and> statusBackupPolicy example_backup_policy ''fs-1''
       = Some (Some (SnapBackupPolicy \<lparr>BackupPolicy_Status = Some ''ENABLED''\<rparr>), ''ENABLED'',
               None)
   \<and> statusBackupPolicy example_backup_policy ''fs-2'' = Some (None, [], None)
   \<and> statusBackupPolicy example_backup_policy ''fs-3''
       = Some (None, [], Some (OtherError ''access denied''))"
  using
    efs_status_not_found [of example_access_points "''fsap-1''"
      "Some \<lparr>AccessPoints = Some [None], AccessPoints_NextToken = None\<rparr>" None
      example_file_systems "''fs-1''"
      "Some \<lparr>FileSystems = Some [Some example_file_system], FileSystems_NextMarker = None\<rparr>"
      None
      example_backup_policy "''fs-1''" "Some \<lparr>BackupPolicy_Status = Some ''ENABLED''\<rparr>" None]
    efs_status_not_found [of example_access_points "''fsap-1''"
      "Some \<lparr>AccessPoints = Some [None], AccessPoints_NextToken = None\<rparr>" None
      example_file_systems "''fs-1''"
      "Some \<lparr>FileSystems = Some [Some example_file_system], FileSystems_NextMarker = None\<rparr>"
      None
      example_backup_policy "''fs-2''" None "Some (NotFoundError ''no backup policy'')"]
    efs_status_not_found [of example_access_points "''fsap-1''"
      "Some \<lparr>AccessPoints = Some [None], AccessPoints_NextToken = None\<rparr>" None
      example_file_systems "''fs-1''"
      "Some \<lparr>FileSystems = Some [Some example_file_system], FileSystems_NextMarker = None\<rparr>"
      None
      example_backup_policy "''fs-3''" None "Some (OtherError ''access denied'')"]
  by (simp add: example_access_points_def example_file_systems_def example_backup_policy_def
      example_file_system_def slice_elems_def StringValue_def NotFound_def)

section \<open>Deletes that find nothing to delete\<close>

text \<open>
  C7. A delete that the API answers with not-found ends like a delete that went through:
  the event bus delete returns nil when \<^verbatim>\<open>DeleteEventBus\<close> fails with
  ResourceNotFoundException, and the route table association delete returns nil when
  \<^verbatim>\<open>DisassociateRouteTable\<close> fails with InvalidAssociationID.NotFound, without waiting
  for the deletion. Either result is the one a successful delete gives, so the caller
  cannot tell the two apart.
\<close>

theorem delete_not_found_is_success:
  assumes "DeleteEventBus (rd_Id d) = Some e1"
    and "as_awserr e1 = Some (''ResourceNotFoundException'', m1)"
    and "DisassociateRouteTable associationID = Some e2"
    and "as_awserr e2 = Some (''InvalidAssociationID.NotFound'', m2)"
  shows "resourceAwsCloudWatchEventBusDelete DeleteEventBus d = None
       \<and> resourceAwsCloudWatchEventBusDelete DeleteEventBus d
           = resourceAwsCloudWatchEventBusDelete (\<lambda>name. None) d
       \<and> ec2RouteTableAssociationDelete DisassociateRouteTable wait associationID = None
       \<and> ec2RouteTableAssociationDelete DisassociateRouteTable wait associationID
           = ec2RouteTableAssociationDelete (\<lambda>i. None) (\<lambda>i. None) associationID
       \<and> resourceAwsRouteTableAssociationDelete DisassociateRouteTable wait
           (SetId d associationID) = None"
  using assms
  by (simp add: resourceAwsCloudWatchEventBusDelete_def ec2RouteTableAssociationDelete_def
      resourceAwsRouteTableAssociationDelete_def SetId_def
      ErrMessageContains_def ErrCodeEquals_def ErrCodeResourceNotFoundException_def
      errCodeInvalidAssociationIDNotFound_def)

theorem delete_not_found_is_success_witness:
  "example_DeleteEventBus (rd_Id example_bus)
     = Some (AwsError ''ResourceNotFoundException'' ''Event bus does not exist.'')
   \<and> example_DisassociateRouteTable ''rtbassoc-1''
     = Some (AwsError ''InvalidAssociationID.NotFound'' ''The association ID does not exist'')
   \<and> resourceAwsCloudWatchEventBusDelete example_DeleteEventBus example_bus = None
   \<and> ec2RouteTableAssociationDelete example_DisassociateRouteTable example_wait_fails
       ''rtbassoc-1'' = None"
  using delete_not_found_is_success [of example_DeleteEventBus example_bus
      "AwsError ''ResourceNotFoundException'' ''Event bus does not exist.''"
      "''Event bus does not exist.''"
      example_DisassociateRouteTable "''rtbassoc-1''"
      "AwsError ''InvalidAssociationID.NotFound'' ''The association ID does not exist''"
      "''The association ID does not exist''" example_wait_fails]
  by (simp add: example_DeleteEventBus_def example_DisassociateRouteTable_def)

section \<open>Lake Formation: the permission filter\<close>

lemma sort_eq_iff_mset: "sort xs = sort ys \<longleftrightarrow> mset xs = mset ys"
proof
  assume "sort xs = sort ys"
  then have "mset (sort xs) = mset (sort ys)" by simp
  then show "mset xs = mset ys" by simp
next
  assume "mset xs = mset ys"
  then show "sort xs = sort ys"
    by (metis mset_sort properties_for_sort sorted_sort)
qed

lemma slice_len_elems: "slice_len s = length (slice_elems s)"
  by (simp add: slice_len_def slice_elems_def split: option.splits)

lemma sseio_iff:
  "stringSlicesEqualIgnoreOrder s1 s2 \<longleftrightarrow>
     slice_len s1 = slice_len s2 \<and> mset (StringValueSlice s1) = mset (StringValueSlice s2)"
  by (simp add: stringSlicesEqualIgnoreOrder_def sort_eq_iff_mset)

lemma mset_StringValueSlice:
  assumes h: "mset (slice_elems s) = mset (slice_elems s')"
  shows "slice_len s = slice_len s'
       \<and> mset (StringValueSlice s) = mset (StringValueSlice s')"
proof -
  from h have "length (slice_elems s) = length (slice_elems s')"
    by (rule mset_eq_length)
  moreover from h
  have "mset (map StringValue (slice_elems s)) = mset (map StringValue (slice_elems s'))"
    by (metis mset_map)
  ultimately show ?thesis by (simp add: slice_len_elems StringValueSlice_def)
qed

text \<open>
  C9. \<^verbatim>\<open>stringSlicesEqualIgnoreOrder\<close> is true exactly when its arguments have the same
  length and the same multiset of string values, a nil pointer reading as the empty
  string. Hence it is symmetric, and permuting either argument does not change it.
\<close>

theorem stringSlicesEqualIgnoreOrder_mset:
  "(stringSlicesEqualIgnoreOrder s1 s2 \<longleftrightarrow>
      slice_len s1 = slice_len s2 \<and> mset (StringValueSlice s1) = mset (StringValueSlice s2))
   \<and> stringSlicesEqualIgnoreOrder s1 s2 = stringSlicesEqualIgnoreOrder s2 s1
   \<and> (mset (slice_elems s1) = mset (slice_elems p1)
        \<and> mset (slice_elems s2) = mset (slice_elems p2)
      \<longrightarrow> stringSlicesEqualIgnoreOrder p1 p2 = stringSlicesEqualIgnoreOrder s1 s2)"
proof -
  have a: "stringSlicesEqualIgnoreOrder s1 s2 \<longleftrightarrow>
      slice_len s1 = slice_len s2 \<and> mset (StringValueSlice s1) = mset (StringValueSlice s2)"
    by (rule sseio_iff)
  have b: "stringSlicesEqualIgnoreOrder s1 s2 = stringSlicesEqualIgnoreOrder s2 s1"
    by (auto simp: sseio_iff)
  have c: "mset (slice_elems s1) = mset (slice_elems p1)
        \<and> mset (slice_elems s2) = mset (slice_elems p2)
      \<longrightarrow> stringSlicesEqualIgnoreOrder p1 p2 = stringSlicesEqualIgnoreOrder s1 s2"
  proof
    assume h: "mset (slice_elems s1) = mset (slice_elems p1)
        \<and> mset (slice_elems s2) = mset (slice_elems p2)"
    with mset_StringValueSlice[of s1 p1] mset_StringValueSlice[of s2 p2]
    show "stringSlicesEqualIgnoreOrder p1 p2 = stringSlicesEqualIgnoreOrder s1 s2"
      by (simp add: sseio_iff)
  qed
  from a b c show ?thesis by blast
qed

theorem stringSlicesEqualIgnoreOrder_mset_witness:
  "mset (slice_elems (Some [Some ''b'', None, Some ''a'']))
     = mset (slice_elems (Some [None, Some ''a'', Some ''b'']))
   \<and> mset (slice_elems (Some [Some ''a'', Some [], Some ''b'']))
     = mset (slice_elems (Some [Some ''a'', Some [], Some ''b'']))
   \<and> stringSlicesEqualIgnoreOrder (Some [None, Some ''a'', Some ''b''])
         (Some [Some ''a'', Some [], Some ''b''])
       = stringSlicesEqualIgnoreOrder (Some [Some ''b'', None, Some ''a''])
           (Some [Some ''a'', Some [], Some ''b''])
   \<and> stringSlicesEqualIgnoreOrder (Some [Some ''b'', None, Some ''a''])
         (Some [Some ''a'', Some [], Some ''b''])"
  using stringSlicesEqualIgnoreOrder_mset
      [of "Some [Some ''b'', None, Some ''a'']" "Some [Some ''a'', Some [], Some ''b'']"
          "Some [None, Some ''a'', Some ''b'']" "Some [Some ''a'', Some [], Some ''b'']"]
  by (simp add: slice_elems_def slice_len_def StringValueSlice_def StringValue_def)

text \<open>
  The loop keeps the elements in their order and appends each at most once: what it
  returns extends the accumulator by a subsequence of the elements its body accepts.
\<close>

lemma range_append_subseq:
  assumes P: "\<And>x. body x = Some True \<Longrightarrow> P x"
  shows "range_append body acc xs = Some out
           \<Longrightarrow> \<exists>ys. out = acc @ ys \<and> subseq ys (filter P xs)"
proof (induction xs arbitrary: acc out)
  case Nil
  then show ?case by simp
next
  case (Cons x xs)
  show ?case
  proof (cases "body x")
    case None
    with Cons.prems show ?thesis by simp
  next
    case (Some b)
    show ?thesis
    proof (cases b)
      case True
      with Some Cons.prems have "range_append body (acc @ [x]) xs = Some out" by simp
      from Cons.IH[OF this] obtain ys
        where ys: "out = (acc @ [x]) @ ys" "subseq ys (filter P xs)"
        by blast
      from True Some have "P x" using P by simp
      with ys show ?thesis by auto
    next
      case False
      with Some Cons.prems have "range_append body acc xs = Some out" by simp
      from Cons.IH[OF this] obtain ys where ys: "out = acc @ ys" "subseq ys (filter P xs)"
        by blast
      then show ?thesis by (auto intro: subseq_Cons')
    qed
  qed
qed

lemma filterByResource_body_principal:
  "filterByResource_body present principal_id perm = Some True
     \<Longrightarrow> principal_equals principal_id perm"
  by (auto simp: filterByResource_body_def principal_equals_def
      split: Option.bind_splits if_splits option.splits)

lemma filterTablePermissions_body_principal:
  "filterTablePermissions_body k principal_id table perm = Some True
     \<Longrightarrow> principal_equals principal_id perm"
  by (auto simp: filterTablePermissions_body_def principal_equals_def
      split: Option.bind_splits if_splits option.splits)

lemma filterTableWithColumnsPermissions_body_principal:
  "filterTableWithColumnsPermissions_body principal_id twc cn ecn cw perm = Some True
     \<Longrightarrow> principal_equals principal_id perm"
  by (auto simp: filterTableWithColumnsPermissions_body_def principal_equals_def
      split: Option.bind_splits if_splits option.splits)

lemma range_append_principal:
  assumes "\<And>perm. body perm = Some True \<Longrightarrow> principal_equals principal_id perm"
    and "range_append body [] allPermissions = Some clean"
  shows "subseq clean (filter (principal_equals principal_id) allPermissions)"
  using range_append_subseq[of body "principal_equals principal_id" "[]" allPermissions clean]
    assms
  by auto

lemma filterCatalogPermissions_subseq:
  "filterCatalogPermissions principal_id allPermissions = Some clean \<Longrightarrow>
     subseq clean (filter (principal_equals principal_id) allPermissions)"
  unfolding filterCatalogPermissions_def
  by (rule range_append_principal[OF filterByResource_body_principal])

lemma filterDataLocationPermissions_subseq:
  "filterDataLocationPermissions principal_id allPermissions = Some clean \<Longrightarrow>
     subseq clean (filter (principal_equals principal_id) allPermissions)"
  unfolding filterDataLocationPermissions_def
  by (rule range_append_principal[OF filterByResource_body_principal])

lemma filterDatabasePermissions_subseq:
  "filterDatabasePermissions principal_id allPermissions = Some clean \<Longrightarrow>
     subseq clean (filter (principal_equals principal_id) allPermissions)"
  unfolding filterDatabasePermissions_def
  by (rule range_append_principal[OF filterByResource_body_principal])

lemma filterTablePermissions_subseq:
  "filterTablePermissions k principal_id table allPermissions = Some clean \<Longrightarrow>
     subseq clean (filter (principal_equals principal_id) allPermissions)"
  unfolding filterTablePermissions_def
  by (rule range_append_principal[OF filterTablePermissions_body_principal])

lemma filterTableWithColumnsPermissions_subseq:
  "filterTableWithColumnsPermissions principal_id twc cn ecn cw allPermissions = Some clean
     \<Longrightarrow> subseq clean (filter (principal_equals principal_id) allPermissions)"
  unfolding filterTableWithColumnsPermissions_def
  by (rule range_append_principal[OF filterTableWithColumnsPermissions_body_principal])

text \<open>
  C8. Whatever branch \<^verbatim>\<open>filterPermissions\<close> takes, the list it returns is a subsequence of
  the elements of \<^verbatim>\<open>allPermissions\<close> whose principal identifier string-equals that of the
  input: only such elements, in their order in \<^verbatim>\<open>allPermissions\<close>, none made up and none
  twice. (With no branch taken the list is empty, and the principal of the input is not
  read.)
\<close>

theorem filterPermissions_subseq:
  assumes "filterPermissions k input tableType columnNames excludedColumnNames columnWildcard
             allPermissions = Some clean"
  shows "clean = []
       \<or> (\<exists>inp pr. input = Some inp \<and> Input_Principal inp = Some pr
            \<and> subseq clean
                 (filter (principal_equals (DataLakePrincipalIdentifier pr)) allPermissions))"
  using assms
  by (auto simp: filterPermissions_def
      split: Option.bind_splits if_splits
      dest: filterCatalogPermissions_subseq filterDataLocationPermissions_subseq
        filterDatabasePermissions_subseq filterTablePermissions_subseq
        filterTableWithColumnsPermissions_subseq)

lemma example_filterPermissions:
  "filterPermissions example_consts example_input ''Table'' None None False
       example_allPermissions
     = Some [example_permission ''alice'' ''ALTER'' (example_table ''orders''),
             example_permission ''alice'' ''SELECT'' example_table_with_columns]"
  by (simp add: filterPermissions_def filterTablePermissions_def
      filterTablePermissions_body_def example_consts_def example_input_def
      example_allPermissions_def example_permission_def example_table_def
      example_table_with_columns_def StringValue_def first_is_def slice_elems_def
      PermissionSelect_def)

theorem filterPermissions_subseq_witness:
  "filterPermissions example_consts example_input ''Table'' None None False
       example_allPermissions
     = Some [example_permission ''alice'' ''ALTER'' (example_table ''orders''),
             example_permission ''alice'' ''SELECT'' example_table_with_columns]
   \<and> subseq [example_permission ''alice'' ''ALTER'' (example_table ''orders''),
              example_permission ''alice'' ''SELECT'' example_table_with_columns]
        (filter (principal_equals (Some ''alice'')) example_allPermissions)"
  using filterPermissions_subseq [OF example_filterPermissions] example_filterPermissions
  by (simp add: example_input_def)

section \<open>Route table association: import\<close>









end
